theory Spec2Isabelle
  imports Complex_Main "HOL-Library.Sublist"
begin

section \<open>The user schema (server.js, lines 18--36)\<close>

text \<open>
  The server keeps one collection of user documents. A document carries the fields of
  \<^verbatim>\<open>userSchema\<close>, the identifier \<^verbatim>\<open>_id\<close> (here \<open>oid\<close>) and the two
  timestamps that \<^verbatim>\<open>{ timestamps: true }\<close> adds. JSON numbers are modelled as
  rationals: every finite double is one, and the code only ever compares a number
  with \<open>0\<close>. An identifier is its 24-digit hexadecimal string.
\<close>

type_synonym objectid = string

record transaction =
  date :: string
  amount :: rat
  recipient :: string
  status :: string

record user =
  oid :: objectid
  username :: string
  email :: string
  password :: string
  balance :: rat
  wallet :: string
  seed :: string
  transaction_history :: "transaction list"
  role :: string
  createdAt :: nat
  updatedAt :: nat

text \<open>
  A request body is a JSON object whose fields are read by destructuring
  (\<^verbatim>\<open>const { username, email, ... } = req.body\<close>). A field that is absent is
  \<^verbatim>\<open>undefined\<close>, here \<open>None\<close>; a field that is present holds a value of the
  schema's type for it.
\<close>

record transaction_body =
  tx_date :: "string option"
  tx_amount :: "rat option"
  tx_recipient :: "string option"
  tx_status :: "string option"

text \<open>
  The body of \<^verbatim>\<open>PATCH /users/:id/transactions\<close> goes into the update whole, under
  \<^verbatim>\<open>$push\<close>, so the keys \<^verbatim>\<open>$each\<close>, \<^verbatim>\<open>$position\<close>, \<^verbatim>\<open>$sort\<close> and
  \<^verbatim>\<open>$slice\<close> reach the update as modifiers when the body has \<^verbatim>\<open>$each\<close>; the
  other three are read only beside \<^verbatim>\<open>$each\<close>. \<open>modifiers\<close> is \<open>None\<close> for a body
  without the key \<^verbatim>\<open>$each\<close>.
\<close>

type_synonym sort_spec = "(string \<times> int) list"

record push_modifiers =
  m_each :: "transaction_body list"
  m_position :: "int option"
  m_sort :: "sort_spec option"
  m_slice :: "int option"

record patch_body = transaction_body +
  modifiers :: "push_modifiers option"

record body =
  b_username :: "string option"
  b_email :: "string option"
  b_password :: "string option"
  b_balance :: "rat option"
  b_wallet :: "string option"
  b_seed :: "string option"
  b_transaction_history :: "transaction_body list option"
  b_role :: "string option"

section \<open>What the libraries and the environment supply\<close>

text \<open>
  \<^verbatim>\<open>bcryptjs\<close>, the keyed hash of \<^verbatim>\<open>jsonwebtoken\<close> and the database's
  reordering for \<^verbatim>\<open>$sort\<close> are parameters: nothing is assumed about them.
  \<open>bcrypt_hash lib pw s\<close> is \<^verbatim>\<open>bcrypt.hash(pw, s)\<close> and \<open>bcrypt_compare lib pw h\<close> is
  \<^verbatim>\<open>bcrypt.compare(pw, h)\<close>, both on strings.
\<close>

record library =
  bcrypt_hash :: "string \<Rightarrow> string \<Rightarrow> string"
  bcrypt_compare :: "string \<Rightarrow> string \<Rightarrow> bool"
  hmac :: "string \<Rightarrow> string \<times> string \<times> nat \<times> nat \<Rightarrow> string"
  mongo_sort :: "sort_spec \<Rightarrow> transaction list \<Rightarrow> transaction list"

text \<open>
  What one request reads from its environment: the salt \<^verbatim>\<open>bcrypt.genSalt(10)\<close>
  returns, the identifier a new document is given, the clock (in seconds) and
  \<^verbatim>\<open>process.env.JWT_SECRET\<close>.
\<close>

record env =
  salt :: string
  new_oid :: objectid
  now :: nat
  JWT_SECRET :: "string option"

datatype thrown = ValidationError | DuplicateKeyError | CastError | IllegalArguments

datatype message = Literal string | ErrMessage thrown

record jwt =
  jwt_id :: string
  jwt_role :: string
  iat :: nat
  exp :: nat
  signature :: string

record profile =
  profile_id :: objectid
  profile_username :: string
  profile_email :: string
  profile_role :: string

datatype json =
    ErrorJson message
  | MessageJson string
  | UserJson user
  | UsersJson "user list"
  | LoginJson string jwt profile

record response =
  res_status :: nat
  res_json :: json

definition json_res :: "nat \<Rightarrow> json \<Rightarrow> response" where
  "json_res code j = \<lparr>res_status = code, res_json = j\<rparr>"

section \<open>The collection: validation, defaults and the queries the handlers call\<close>

text \<open>
  \<^verbatim>\<open>required: true\<close> on a string path rejects \<^verbatim>\<open>undefined\<close> and the empty
  string; on a number path it rejects \<^verbatim>\<open>undefined\<close>. \<^verbatim>\<open>min: 0\<close> and
  \<^verbatim>\<open>enum\<close> are checked on a value that is present; a path with a default takes it
  when the value is \<^verbatim>\<open>undefined\<close>.
\<close>

definition or_default :: "'a \<Rightarrow> 'a option \<Rightarrow> 'a" where
  "or_default d v = (case v of None \<Rightarrow> d | Some x \<Rightarrow> x)"

definition required_string :: "string option \<Rightarrow> bool" where
  "required_string v = (case v of None \<Rightarrow> False | Some s \<Rightarrow> s \<noteq> [])"

definition enum_ok :: "string list \<Rightarrow> string option \<Rightarrow> bool" where
  "enum_ok allowed v = (case v of None \<Rightarrow> True | Some s \<Rightarrow> s \<in> set allowed)"

definition status_enum :: "string list" where
  "status_enum = [''Success'', ''Failed'', ''Pending'']"

definition role_enum :: "string list" where
  "role_enum = [''user'', ''admin'']"

definition validate_transaction :: "'a transaction_body_scheme \<Rightarrow> bool" where
  "validate_transaction t =
     (required_string (tx_date t)
      \<and> (case tx_amount t of None \<Rightarrow> False | Some a \<Rightarrow> 0 \<le> a)
      \<and> required_string (tx_recipient t)
      \<and> enum_ok status_enum (tx_status t))"

definition new_transaction :: "'a transaction_body_scheme \<Rightarrow> transaction" where
  "new_transaction t =
     \<lparr>date = or_default [] (tx_date t),
      amount = or_default 0 (tx_amount t),
      recipient = or_default [] (tx_recipient t),
      status = or_default ''Pending'' (tx_status t)\<rparr>"

definition validate_User :: "body \<Rightarrow> bool" where
  "validate_User b =
     (required_string (b_username b)
      \<and> required_string (b_email b)
      \<and> required_string (b_password b)
      \<and> list_all validate_transaction (or_default [] (b_transaction_history b))
      \<and> enum_ok role_enum (b_role b))"

text \<open>
  \<^verbatim>\<open>new User({...})\<close>: the document with its defaults. A required string that is
  \<^verbatim>\<open>undefined\<close> shows as the empty string here; such a document never passes
  \<open>validate_User\<close>, so it is never stored or returned.
\<close>

definition new_User :: "env \<Rightarrow> body \<Rightarrow> user" where
  "new_User e b =
     \<lparr>oid = new_oid e,
      username = or_default [] (b_username b),
      email = or_default [] (b_email b),
      password = or_default [] (b_password b),
      balance = or_default 0 (b_balance b),
      wallet = or_default [] (b_wallet b),
      seed = or_default [] (b_seed b),
      transaction_history = map new_transaction (or_default [] (b_transaction_history b)),
      role = or_default ''user'' (b_role b),
      createdAt = now e,
      updatedAt = now e\<rparr>"

text \<open>
  \<^verbatim>\<open>newUser.save()\<close>: validation, then the insert, which the unique indexes on
  \<^verbatim>\<open>_id\<close> and \<^verbatim>\<open>email\<close> can refuse.
\<close>

definition save :: "env \<Rightarrow> body \<Rightarrow> user list \<Rightarrow> thrown + user \<times> user list" where
  "save e b db =
     (if \<not> validate_User b then Inl ValidationError
      else
        let u = new_User e b in
        (case find (\<lambda>v. oid v = oid u \<or> email v = email u) db of
           Some v \<Rightarrow> Inl DuplicateKeyError
         | None \<Rightarrow> Inr (u, db @ [u])))"

text \<open>
  \<^verbatim>\<open>User.findOne({ email })\<close>. With \<^verbatim>\<open>email\<close> undefined the filter goes out as
  \<^verbatim>\<open>{ email: null }\<close>; every stored document has a string there, so none matches
  and the result is \<^verbatim>\<open>null\<close>.
\<close>

definition findOne_email :: "string option \<Rightarrow> user list \<Rightarrow> user option" where
  "findOne_email e db =
     (case e of
        None \<Rightarrow> None
      | Some s \<Rightarrow> find (\<lambda>u. email u = s) db)"

text \<open>
  The \<^verbatim>\<open>findById\<close> family casts the request's id to an object id first: a string of
  24 hexadecimal digits, read case-insensitively. Any other string makes the query
  throw a cast error.
\<close>

definition hex_lower :: "char \<Rightarrow> char option" where
  "hex_lower c = map_of (zip ''0123456789abcdefABCDEF'' ''0123456789abcdefabcdef'') c"

definition castObjectId :: "string \<Rightarrow> objectid option" where
  "castObjectId s =
     (if length s = 24 \<and> list_all (\<lambda>c. hex_lower c \<noteq> None) s
      then Some (map (\<lambda>c. or_default c (hex_lower c)) s)
      else None)"

definition findById :: "string \<Rightarrow> user list \<Rightarrow> thrown + user option" where
  "findById i db =
     (case castObjectId i of
        None \<Rightarrow> Inl CastError
      | Some k \<Rightarrow> Inr (find (\<lambda>u. oid u = k) db))"

definition findByIdAndDelete :: "string \<Rightarrow> user list \<Rightarrow> thrown + user option \<times> user list" where
  "findByIdAndDelete i db =
     (case castObjectId i of
        None \<Rightarrow> Inl CastError
      | Some k \<Rightarrow>
         (case find (\<lambda>u. oid u = k) db of
            None \<Rightarrow> Inr (None, db)
          | Some u \<Rightarrow> Inr (Some u, remove1 u db)))"

text \<open>
  The two update documents the handlers build: a plain object, which is a
  \<^verbatim>\<open>$set\<close> of its keys (a key whose value is \<^verbatim>\<open>undefined\<close> is dropped from the
  update), and \<^verbatim>\<open>{ $push: { transaction_history: req.body } }\<close>.
\<close>

datatype update = Set body | Push patch_body

text \<open>
  \<^verbatim>\<open>runValidators: true\<close>: the validators of the paths the update writes. Under
  \<^verbatim>\<open>$push\<close> they run on what is pushed: the body as one transaction, or the
  elements of \<^verbatim>\<open>$each\<close> when the body has that key (its other fields are then not
  part of the update).
\<close>

definition validate_update :: "update \<Rightarrow> bool" where
  "validate_update upd =
     (case upd of
        Set b \<Rightarrow>
          (case b_username b of None \<Rightarrow> True | Some s \<Rightarrow> s \<noteq> [])
          \<and> (case b_email b of None \<Rightarrow> True | Some s \<Rightarrow> s \<noteq> [])
          \<and> (case b_password b of None \<Rightarrow> True | Some s \<Rightarrow> s \<noteq> [])
          \<and> list_all validate_transaction (or_default [] (b_transaction_history b))
          \<and> enum_ok role_enum (b_role b)
      | Push p \<Rightarrow>
          (case modifiers p of
             None \<Rightarrow> validate_transaction p
           | Some m \<Rightarrow> list_all validate_transaction (m_each m)))"

text \<open>
  \<^verbatim>\<open>$push\<close> with modifiers, as the database applies it: the elements of
  \<^verbatim>\<open>$each\<close> go in at \<^verbatim>\<open>$position\<close> (at the end without it; a negative position
  counts from the end, and one beyond either end is that end), then the array is
  reordered by \<^verbatim>\<open>$sort\<close>, then cut by \<^verbatim>\<open>$slice\<close>: to its first \<open>n\<close> elements for
  \<open>n \<ge> 0\<close>, to its last \<open>-n\<close> for \<open>n < 0\<close>.
\<close>

definition push_index :: "int option \<Rightarrow> nat \<Rightarrow> nat" where
  "push_index position len =
     (case position of
        None \<Rightarrow> len
      | Some i \<Rightarrow> if i < 0 then nat (int len + i) else min (nat i) len)"

definition push_slice :: "int option \<Rightarrow> 'a list \<Rightarrow> 'a list" where
  "push_slice slice xs =
     (case slice of
        None \<Rightarrow> xs
      | Some n \<Rightarrow> if 0 \<le> n then take (nat n) xs else drop (length xs - nat (- n)) xs)"

definition push_each :: "library \<Rightarrow> push_modifiers \<Rightarrow> transaction list \<Rightarrow> transaction list" where
  "push_each lib m history =
     (let idx = push_index (m_position m) (length history);
          inserted = take idx history @ map new_transaction (m_each m) @ drop idx history;
          reordered =
            (case m_sort m of None \<Rightarrow> inserted | Some spec \<Rightarrow> mongo_sort lib spec inserted)
      in push_slice (m_slice m) reordered)"

definition apply_update :: "library \<Rightarrow> env \<Rightarrow> update \<Rightarrow> user \<Rightarrow> user" where
  "apply_update lib e upd u =
     (case upd of
        Set b \<Rightarrow>
          u\<lparr>username := or_default (username u) (b_username b),
            email := or_default (email u) (b_email b),
            password := or_default (password u) (b_password b),
            balance := or_default (balance u) (b_balance b),
            wallet := or_default (wallet u) (b_wallet b),
            seed := or_default (seed u) (b_seed b),
            transaction_history :=
              (case b_transaction_history b of
                 None \<Rightarrow> transaction_history u
               | Some ts \<Rightarrow> map new_transaction ts),
            role := or_default (role u) (b_role b),
            updatedAt := now e\<rparr>
      | Push p \<Rightarrow>
          u\<lparr>transaction_history :=
              (case modifiers p of
                 None \<Rightarrow> transaction_history u @ [new_transaction p]
               | Some m \<Rightarrow> push_each lib m (transaction_history u)),
            updatedAt := now e\<rparr>)"

text \<open>
  \<^verbatim>\<open>User.findByIdAndUpdate(id, update, { new: true, runValidators: true })\<close>: the id
  is cast and the update validated before the collection is touched; the result is
  the document after the update (\<^verbatim>\<open>new: true\<close>), or \<^verbatim>\<open>null\<close> when no document has
  the id. An update that changes \<^verbatim>\<open>email\<close> to the one of another document is refused
  by the unique index.
\<close>

definition findByIdAndUpdate ::
    "library \<Rightarrow> env \<Rightarrow> string \<Rightarrow> update \<Rightarrow> user list
      \<Rightarrow> thrown + user option \<times> user list" where
  "findByIdAndUpdate lib e i upd db =
     (case castObjectId i of
        None \<Rightarrow> Inl CastError
      | Some k \<Rightarrow>
         if \<not> validate_update upd then Inl ValidationError
         else
           (case find (\<lambda>u. oid u = k) db of
              None \<Rightarrow> Inr (None, db)
            | Some u \<Rightarrow>
               let u' = apply_update lib e upd u in
               if email u' \<noteq> email u \<and> find (\<lambda>v. oid v \<noteq> k \<and> email v = email u') db \<noteq> None
               then Inl DuplicateKeyError
               else Inr (Some u', map (\<lambda>v. if oid v = k then u' else v) db)))"

section \<open>Tokens\<close>

text \<open>
  \<^verbatim>\<open>jwt.sign\<close> and \<^verbatim>\<open>jwt.verify\<close> belong to the \<^verbatim>\<open>jsonwebtoken\<close> package,
  which is not among the sources. A token is modelled by what it encodes: the payload
  \<^verbatim>\<open>{ id, role }\<close> the server signs, the issue and expiry times, and the signature.
  A string that is no token at all is no value of type \<open>jwt\<close>; the middleware below
  meets it as \<open>Bearer None\<close>.
\<close>

datatype jwt_error = JsonWebTokenError | TokenExpiredError

definition jwt_payload :: "jwt \<Rightarrow> string \<times> string \<times> nat \<times> nat" where
  "jwt_payload t = (jwt_id t, jwt_role t, iat t, exp t)"

text \<open>
  Modelled from the spec: \<^verbatim>\<open>jwt.sign\<close> of the missing \<^verbatim>\<open>jsonwebtoken\<close> package,
  the spec's \<^emph>\<open>issue\<close>: it produces a token encoding subject id, role, issue time and
  expiry time, signed with a process-wide secret and valid for a fixed duration.
\<close>

definition jwt_sign :: "library \<Rightarrow> string \<times> string \<Rightarrow> string \<Rightarrow> nat \<Rightarrow> nat \<Rightarrow> jwt" where
  "jwt_sign lib claims secret expiresIn clock =
     \<lparr>jwt_id = fst claims, jwt_role = snd claims, iat = clock, exp = clock + expiresIn,
      signature = hmac lib secret (fst claims, snd claims, clock, clock + expiresIn)\<rparr>"

text \<open>
  Modelled from the spec: \<^verbatim>\<open>jwt.verify\<close> of the missing \<^verbatim>\<open>jsonwebtoken\<close>
  package, the spec's \<^emph>\<open>verify\<close>: it gives the subject id and role, or fails when the
  signature does not match or the expiry time has passed.
\<close>

definition jwt_verify :: "library \<Rightarrow> jwt \<Rightarrow> string \<Rightarrow> nat \<Rightarrow> jwt_error + string \<times> string" where
  "jwt_verify lib t secret clock =
     (if signature t \<noteq> hmac lib secret (jwt_payload t) then Inl JsonWebTokenError
      else if exp t \<le> clock then Inl TokenExpiredError
      else Inr (jwt_id t, jwt_role t))"

section \<open>The middleware and the handlers (server.js, lines 39--225)\<close>

text \<open>\<^verbatim>\<open>process.env.JWT_SECRET || "dev_secret"\<close>: an unset or empty variable is falsy.\<close>

definition jwt_secret :: "env \<Rightarrow> string" where
  "jwt_secret e =
     (case JWT_SECRET e of
        None \<Rightarrow> ''dev_secret''
      | Some s \<Rightarrow> if s = [] then ''dev_secret'' else s)"

text \<open>\<^verbatim>\<open>expiresIn: "1d"\<close>, in seconds.\<close>

definition one_day :: nat where
  "one_day = 24 * 60 * 60"

text \<open>
  The \<^verbatim>\<open>Authorization\<close> header as the middleware tells its cases apart: absent;
  present without the prefix \<^verbatim>\<open>"Bearer "\<close>; or a bearer credential, which is a
  token or a string that is none.
\<close>

datatype authorization = NoHeader | OtherScheme | Bearer "jwt option"

record principal =
  p_id :: string
  p_role :: string

definition authMiddleware :: "library \<Rightarrow> env \<Rightarrow> authorization \<Rightarrow> response + principal" where
  "authMiddleware lib e authHeader =
     (case authHeader of
        NoHeader \<Rightarrow> Inl (json_res 401 (ErrorJson (Literal ''Unauthorized'')))
      | OtherScheme \<Rightarrow> Inl (json_res 401 (ErrorJson (Literal ''Unauthorized'')))
      | Bearer None \<Rightarrow> Inl (json_res 401 (ErrorJson (Literal ''Invalid token'')))
      | Bearer (Some token) \<Rightarrow>
         (case jwt_verify lib token (jwt_secret e) (now e) of
            Inl err \<Rightarrow> Inl (json_res 401 (ErrorJson (Literal ''Invalid token'')))
          | Inr decoded \<Rightarrow> Inr \<lparr>p_id = fst decoded, p_role = snd decoded\<rparr>))"

text \<open>
  \<^verbatim>\<open>POST /auth/register\<close>. \<^verbatim>\<open>bcrypt.hash\<close> throws on a password that is
  \<^verbatim>\<open>undefined\<close>; every exception ends in the handler's \<^verbatim>\<open>catch\<close>, status 400.
\<close>

definition post_auth_register :: "library \<Rightarrow> env \<Rightarrow> body \<Rightarrow> user list \<Rightarrow> response \<times> user list" where
  "post_auth_register lib e b db =
     (case findOne_email (b_email b) db of
        Some existing \<Rightarrow> (json_res 400 (ErrorJson (Literal ''Email already in use.'')), db)
      | None \<Rightarrow>
         (case b_password b of
            None \<Rightarrow> (json_res 400 (ErrorJson (ErrMessage IllegalArguments)), db)
          | Some pw \<Rightarrow>
             let hashedPassword = bcrypt_hash lib pw (salt e);
                 newUser = \<lparr>b_username = b_username b, b_email = b_email b,
                            b_password = Some hashedPassword, b_balance = None,
                            b_wallet = None, b_seed = None,
                            b_transaction_history = None, b_role = b_role b\<rparr>
             in (case save e newUser db of
                   Inl err \<Rightarrow> (json_res 400 (ErrorJson (ErrMessage err)), db)
                 | Inr (savedUser, db') \<Rightarrow> (json_res 201 (UserJson savedUser), db'))))"

text \<open>\<^verbatim>\<open>POST /auth/login\<close>. \<^verbatim>\<open>bcrypt.compare\<close> throws on an undefined password.\<close>

definition post_auth_login :: "library \<Rightarrow> env \<Rightarrow> body \<Rightarrow> user list \<Rightarrow> response" where
  "post_auth_login lib e b db =
     (case findOne_email (b_email b) db of
        None \<Rightarrow> json_res 400 (ErrorJson (Literal ''Invalid credentials''))
      | Some u \<Rightarrow>
         (case b_password b of
            None \<Rightarrow> json_res 400 (ErrorJson (ErrMessage IllegalArguments))
          | Some pw \<Rightarrow>
             if \<not> bcrypt_compare lib pw (password u)
             then json_res 400 (ErrorJson (Literal ''Invalid credentials''))
             else
               let token = jwt_sign lib (oid u, role u) (jwt_secret e) one_day (now e)
               in json_res 200
                    (LoginJson ''Login successful'' token
                       \<lparr>profile_id = oid u, profile_username = username u,
                        profile_email = email u, profile_role = role u\<rparr>)))"

text \<open>
  \<^verbatim>\<open>POST /users\<close>. \<^verbatim>\<open>if (password)\<close> is false for an undefined and for an empty
  password; \<^verbatim>\<open>hashedPassword\<close> then stays \<^verbatim>\<open>""\<close>.
\<close>

definition post_users :: "library \<Rightarrow> env \<Rightarrow> principal \<Rightarrow> body \<Rightarrow> user list \<Rightarrow> response \<times> user list" where
  "post_users lib e req_user b db =
     (if p_role req_user \<noteq> ''admin''
      then (json_res 403 (ErrorJson (Literal ''Forbidden: Admin only'')), db)
      else
        let hashedPassword =
              (case b_password b of
                 None \<Rightarrow> []
               | Some pw \<Rightarrow> if pw = [] then [] else bcrypt_hash lib pw (salt e));
            newUser = b\<lparr>b_password := Some hashedPassword\<rparr>
        in (case save e newUser db of
              Inl err \<Rightarrow> (json_res 400 (ErrorJson (ErrMessage err)), db)
            | Inr (savedUser, db') \<Rightarrow> (json_res 201 (UserJson savedUser), db')))"

text \<open>\<^verbatim>\<open>GET /users\<close>.\<close>

definition get_users :: "principal \<Rightarrow> user list \<Rightarrow> response" where
  "get_users req_user db =
     (if p_role req_user \<noteq> ''admin''
      then json_res 403 (ErrorJson (Literal ''Forbidden: Admin only''))
      else json_res 200 (UsersJson db))"

text \<open>\<^verbatim>\<open>GET /users/:id\<close>.\<close>

definition get_users_id :: "principal \<Rightarrow> string \<Rightarrow> user list \<Rightarrow> response" where
  "get_users_id req_user params_id db =
     (if p_id req_user \<noteq> params_id \<and> p_role req_user \<noteq> ''admin''
      then json_res 403 (ErrorJson (Literal ''Forbidden''))
      else
        (case findById params_id db of
           Inl err \<Rightarrow> json_res 500 (ErrorJson (ErrMessage err))
         | Inr None \<Rightarrow> json_res 404 (ErrorJson (Literal ''User not found''))
         | Inr (Some u) \<Rightarrow> json_res 200 (UserJson u)))"

text \<open>
  \<^verbatim>\<open>PUT /users/:id\<close>. \<open>updateData\<close> is the object of that name the handler
  builds: the seven other fields as the body has them, and \<^verbatim>\<open>password\<close> only when
  the body's password is truthy, hashed.
\<close>

definition updateData :: "library \<Rightarrow> env \<Rightarrow> body \<Rightarrow> body" where
  "updateData lib e b =
     b\<lparr>b_password :=
         (case b_password b of
            None \<Rightarrow> None
          | Some pw \<Rightarrow> if pw = [] then None else Some (bcrypt_hash lib pw (salt e)))\<rparr>"

definition put_users_id ::
    "library \<Rightarrow> env \<Rightarrow> principal \<Rightarrow> string \<Rightarrow> body \<Rightarrow> user list \<Rightarrow> response \<times> user list" where
  "put_users_id lib e req_user params_id b db =
     (if p_id req_user \<noteq> params_id \<and> p_role req_user \<noteq> ''admin''
      then (json_res 403 (ErrorJson (Literal ''Forbidden'')), db)
      else
        (case findByIdAndUpdate lib e params_id (Set (updateData lib e b)) db of
           Inl err \<Rightarrow> (json_res 400 (ErrorJson (ErrMessage err)), db)
         | Inr (None, db') \<Rightarrow> (json_res 404 (ErrorJson (Literal ''User not found'')), db')
         | Inr (Some updatedUser, db') \<Rightarrow> (json_res 200 (UserJson updatedUser), db')))"

text \<open>\<^verbatim>\<open>DELETE /users/:id\<close>.\<close>

definition delete_users_id :: "principal \<Rightarrow> string \<Rightarrow> user list \<Rightarrow> response \<times> user list" where
  "delete_users_id req_user params_id db =
     (if p_id req_user \<noteq> params_id \<and> p_role req_user \<noteq> ''admin''
      then (json_res 403 (ErrorJson (Literal ''Forbidden'')), db)
      else
        (case findByIdAndDelete params_id db of
           Inl err \<Rightarrow> (json_res 500 (ErrorJson (ErrMessage err)), db)
         | Inr (None, db') \<Rightarrow> (json_res 404 (ErrorJson (Literal ''User not found'')), db')
         | Inr (Some deletedUser, db') \<Rightarrow>
             (json_res 200 (MessageJson ''User deleted successfully''), db')))"

text \<open>
  \<^verbatim>\<open>PATCH /users/:id/transactions\<close>. \<^verbatim>\<open>const transaction = req.body\<close> is pushed
  as it is.
\<close>

definition patch_users_id_transactions ::
    "library \<Rightarrow> env \<Rightarrow> principal \<Rightarrow> string \<Rightarrow> patch_body \<Rightarrow> user list
      \<Rightarrow> response \<times> user list" where
  "patch_users_id_transactions lib e req_user params_id transaction db =
     (if p_id req_user \<noteq> params_id \<and> p_role req_user \<noteq> ''admin''
      then (json_res 403 (ErrorJson (Literal ''Forbidden'')), db)
      else
        (case findByIdAndUpdate lib e params_id (Push transaction) db of
           Inl err \<Rightarrow> (json_res 400 (ErrorJson (ErrMessage err)), db)
         | Inr (None, db') \<Rightarrow> (json_res 404 (ErrorJson (Literal ''User not found'')), db')
         | Inr (Some updatedUser, db') \<Rightarrow> (json_res 200 (UserJson updatedUser), db')))"

section \<open>The application: one request at a time\<close>

text \<open>
  A request names its route and carries what the route reads: the
  \<^verbatim>\<open>Authorization\<close> header on the protected routes, \<^verbatim>\<open>req.params.id\<close> and
  the body. \<open>app\<close> runs the middleware, then the handler, and returns the response
  with the collection after the request.
\<close>

datatype request =
    PostAuthRegister body
  | PostAuthLogin body
  | PostUsers authorization body
  | GetUsers authorization
  | GetUsersId authorization string
  | PutUsersId authorization string body
  | DeleteUsersId authorization string
  | PatchUsersIdTransactions authorization string patch_body

definition protected ::
    "library \<Rightarrow> env \<Rightarrow> authorization \<Rightarrow> (principal \<Rightarrow> response \<times> user list) \<Rightarrow> user list
      \<Rightarrow> response \<times> user list" where
  "protected lib e authHeader handler db =
     (case authMiddleware lib e authHeader of
        Inl res \<Rightarrow> (res, db)
      | Inr req_user \<Rightarrow> handler req_user)"

definition app :: "library \<Rightarrow> env \<Rightarrow> request \<Rightarrow> user list \<Rightarrow> response \<times> user list" where
  "app lib e req db =
     (case req of
        PostAuthRegister b \<Rightarrow> post_auth_register lib e b db
      | PostAuthLogin b \<Rightarrow> (post_auth_login lib e b db, db)
      | PostUsers h b \<Rightarrow> protected lib e h (\<lambda>req_user. post_users lib e req_user b db) db
      | GetUsers h \<Rightarrow> protected lib e h (\<lambda>req_user. (get_users req_user db, db)) db
      | GetUsersId h i \<Rightarrow> protected lib e h (\<lambda>req_user. (get_users_id req_user i db, db)) db
      | PutUsersId h i b \<Rightarrow> protected lib e h (\<lambda>req_user. put_users_id lib e req_user i b db) db
      | DeleteUsersId h i \<Rightarrow> protected lib e h (\<lambda>req_user. delete_users_id req_user i db) db
      | PatchUsersIdTransactions h i t \<Rightarrow>
          protected lib e h (\<lambda>req_user. patch_users_id_transactions lib e req_user i t db) db)"

text \<open>A run of the server: the requests in the order served, each with its environment.\<close>

fun run :: "library \<Rightarrow> (env \<times> request) list \<Rightarrow> user list \<Rightarrow> user list" where
  "run lib [] db = db"
| "run lib (step # steps) db = run lib steps (snd (app lib (fst step) (snd step) db))"

text \<open>
  The requests that can write the stored history of the user with identifier \<open>k\<close>
  other than by appending to it: an update of that user whose body has the field
  \<^verbatim>\<open>transaction_history\<close>, a delete of that user, and a push to that user's
  history whose body has the key \<^verbatim>\<open>$each\<close>.
\<close>

definition rewrites_history :: "objectid \<Rightarrow> request \<Rightarrow> bool" where
  "rewrites_history k req =
     (case req of
        PutUsersId h i b \<Rightarrow> castObjectId i = Some k \<and> b_transaction_history b \<noteq> None
      | DeleteUsersId h i \<Rightarrow> castObjectId i = Some k
      | PatchUsersIdTransactions h i p \<Rightarrow> castObjectId i = Some k \<and> modifiers p \<noteq> None
      | _ \<Rightarrow> False)"

section \<open>Notions the properties are stated with\<close>

text \<open>
  The spec's \<^emph>\<open>authorizeSelfOrAdmin\<close>, in its words: passes iff the principal's
  subject id equals the target user id or the principal's role is admin. The source
  has no function of this name; the four handlers spell the test out.
\<close>

definition authorizeSelfOrAdmin :: "principal \<Rightarrow> string \<Rightarrow> bool" where
  "authorizeSelfOrAdmin pr targetUserId = (p_id pr = targetUserId \<or> p_role pr = ''admin'')"

text \<open>The values of the \<^verbatim>\<open>password\<close> fields a response body carries.\<close>

definition password_fields :: "json \<Rightarrow> string list" where
  "password_fields j =
     (case j of
        ErrorJson m \<Rightarrow> []
      | MessageJson m \<Rightarrow> []
      | UserJson u \<Rightarrow> [password u]
      | UsersJson us \<Rightarrow> map password us
      | LoginJson m token p \<Rightarrow> [])"

text \<open>The document with a given identifier, and the update's frame on one field.\<close>

definition by_oid :: "objectid \<Rightarrow> user list \<Rightarrow> user option" where
  "by_oid k db = find (\<lambda>u. oid u = k) db"





text \<open>An update document that leaves the stored history's entries where they are.\<close>

definition appends_only :: "update \<Rightarrow> bool" where
  "appends_only upd =
     (case upd of Set b \<Rightarrow> b_transaction_history b = None | Push p \<Rightarrow> modifiers p = None)"

section \<open>Concrete values for evaluating the definitions\<close>

text \<open>
  One library, one environment, one stored user and two principals, for the closed
  instances below. The library's functions stand in for \<^verbatim>\<open>bcryptjs\<close> and the
  keyed hash, and the reordering leaves a list as it is: the instances only need them
  to be functions.
\<close>

definition example_library :: library where
  "example_library =
     \<lparr>bcrypt_hash = (\<lambda>pw s. s @ pw),
      bcrypt_compare = (\<lambda>pw h. drop 4 h = pw),
      hmac = (\<lambda>secret p. secret @ fst p @ fst (snd p)),
      mongo_sort = (\<lambda>spec xs. xs)\<rparr>"

definition example_env :: env where
  "example_env =
     \<lparr>salt = ''$2a$'', new_oid = ''65f0a1b2c3d4e5f601234567'', now = 1000, JWT_SECRET = None\<rparr>"

definition alice :: user where
  "alice =
     \<lparr>oid = ''65f0a1b2c3d4e5f6a7b8c9d0'', username = ''alice'', email = ''alice@example.com'',
      password = ''$2a$secret'', balance = 0, wallet = [], seed = [],
      transaction_history =
        [\<lparr>date = ''2025-01-01'', amount = 5, recipient = ''bob'', status = ''Success''\<rparr>],
      role = ''user'', createdAt = 10, updatedAt = 10\<rparr>"

definition alice_principal :: principal where
  "alice_principal = \<lparr>p_id = ''65f0a1b2c3d4e5f6a7b8c9d0'', p_role = ''user''\<rparr>"

definition admin_principal :: principal where
  "admin_principal = \<lparr>p_id = ''65f0a1b2c3d4e5f6ffffffff'', p_role = ''admin''\<rparr>"

definition empty_body :: body where
  "empty_body =
     \<lparr>b_username = None, b_email = None, b_password = None, b_balance = None,
      b_wallet = None, b_seed = None, b_transaction_history = None, b_role = None\<rparr>"

definition mallory_body :: body where
  "mallory_body =
     empty_body\<lparr>b_username := Some ''mallory'', b_email := Some ''mallory@example.com'',
       b_password := Some ''hunter2'', b_role := Some ''admin''\<rparr>"

definition pending_transaction :: patch_body where
  "pending_transaction =
     \<lparr>tx_date = Some ''2025-02-02'', tx_amount = Some 0, tx_recipient = Some ''bob'',
      tx_status = Some ''Pending'', modifiers = None\<rparr>"

section \<open>Access control on one account\<close>

lemma get_users_id_403:
  "(res_status (get_users_id pr t db) = 403) = (\<not> authorizeSelfOrAdmin pr t)"
  by (simp add: get_users_id_def authorizeSelfOrAdmin_def json_res_def
      split: sum.splits option.splits)

lemma put_users_id_403:
  "(res_status (fst (put_users_id lib e pr t b db)) = 403) = (\<not> authorizeSelfOrAdmin pr t)"
  by (simp add: put_users_id_def authorizeSelfOrAdmin_def json_res_def
      split: sum.splits option.splits prod.splits)

lemma delete_users_id_403:
  "(res_status (fst (delete_users_id pr t db)) = 403) = (\<not> authorizeSelfOrAdmin pr t)"
  by (simp add: delete_users_id_def authorizeSelfOrAdmin_def json_res_def
      split: sum.splits option.splits prod.splits)

lemma patch_users_id_transactions_403:
  "(res_status (fst (patch_users_id_transactions lib e pr t tx db)) = 403)
     = (\<not> authorizeSelfOrAdmin pr t)"
  by (simp add: patch_users_id_transactions_def authorizeSelfOrAdmin_def json_res_def
      split: sum.splits option.splits prod.splits)

text \<open>
  Claim C1. On each of the four routes that name one account (read, update, delete,
  append a transaction) the handler answers 403 exactly when the principal is neither
  the target user nor an admin; every other request gets past the check. A refused
  request gets the same response on all four and leaves the collection as it was.
\<close>

theorem self_or_admin_on_all_four_routes:
  "(res_status (get_users_id pr t db) = 403) = (\<not> authorizeSelfOrAdmin pr t)
   \<and> (res_status (fst (put_users_id lib e pr t b db)) = 403) = (\<not> authorizeSelfOrAdmin pr t)
   \<and> (res_status (fst (delete_users_id pr t db)) = 403) = (\<not> authorizeSelfOrAdmin pr t)
   \<and> (res_status (fst (patch_users_id_transactions lib e pr t tx db)) = 403)
       = (\<not> authorizeSelfOrAdmin pr t)
   \<and> (authorizeSelfOrAdmin pr t
       \<or> get_users_id pr t db = json_res 403 (ErrorJson (Literal ''Forbidden''))
          \<and> put_users_id lib e pr t b db = (json_res 403 (ErrorJson (Literal ''Forbidden'')), db)
          \<and> delete_users_id pr t db = (json_res 403 (ErrorJson (Literal ''Forbidden'')), db)
          \<and> patch_users_id_transactions lib e pr t tx db
              = (json_res 403 (ErrorJson (Literal ''Forbidden'')), db))"
proof -
  have "authorizeSelfOrAdmin pr t
        \<or> get_users_id pr t db = json_res 403 (ErrorJson (Literal ''Forbidden''))
          \<and> put_users_id lib e pr t b db = (json_res 403 (ErrorJson (Literal ''Forbidden'')), db)
          \<and> delete_users_id pr t db = (json_res 403 (ErrorJson (Literal ''Forbidden'')), db)
          \<and> patch_users_id_transactions lib e pr t tx db
              = (json_res 403 (ErrorJson (Literal ''Forbidden'')), db)"
    by (simp add: authorizeSelfOrAdmin_def get_users_id_def put_users_id_def
        delete_users_id_def patch_users_id_transactions_def)
  then show ?thesis
    using get_users_id_403 put_users_id_403 delete_users_id_403
      patch_users_id_transactions_403
    by simp
qed

theorem self_or_admin_on_all_four_routes_witness:
  "res_status (get_users_id alice_principal (oid alice) [alice]) = 200
   \<and> res_status (get_users_id alice_principal (p_id admin_principal) [alice]) = 403
   \<and> res_status (fst (delete_users_id admin_principal (oid alice) [alice])) = 200
   \<and> authorizeSelfOrAdmin alice_principal (oid alice)
   \<and> \<not> authorizeSelfOrAdmin alice_principal (p_id admin_principal)
   \<and> authorizeSelfOrAdmin admin_principal (oid alice)"
  using self_or_admin_on_all_four_routes [of alice_principal "p_id admin_principal" "[alice]"]
  by (simp add: authorizeSelfOrAdmin_def alice_principal_def admin_principal_def alice_def
      get_users_id_def delete_users_id_def findById_def findByIdAndDelete_def castObjectId_def
      hex_lower_def or_default_def json_res_def)

section \<open>Registration and login\<close>

text \<open>
  The two explicit failures of login get the same response: no user has the email, or
  the body's password is a string that does not match the stored hash.
\<close>

lemma login_failures_same_for_string_password:
  assumes unknown: "findOne_email (b_email b1) db1 = None"
    and known: "findOne_email (b_email b2) db2 = Some u"
    and pw: "b_password b2 = Some pw"
    and mismatch: "\<not> bcrypt_compare lib pw (password u)"
  shows "post_auth_login lib e1 b1 db1 = post_auth_login lib e2 b2 db2
         \<and> post_auth_login lib e1 b1 db1
             = json_res 400 (ErrorJson (Literal ''Invalid credentials''))"
  using assms by (simp add: post_auth_login_def)

text \<open>
  A login whose email no user has is answered \<^verbatim>\<open>Invalid credentials\<close> whatever the
  rest of the body; a login whose email some user has and whose body has no password
  is answered with the message of the exception \<^verbatim>\<open>bcrypt.compare\<close> throws.
\<close>

lemma login_unknown_email:
  "findOne_email (b_email b) db = None \<Longrightarrow>
   post_auth_login lib e b db = json_res 400 (ErrorJson (Literal ''Invalid credentials''))"
  by (simp add: post_auth_login_def)

lemma login_known_email_without_password:
  "findOne_email (b_email b) db = Some u \<Longrightarrow> b_password b = None \<Longrightarrow>
   post_auth_login lib e b db = json_res 400 (ErrorJson (ErrMessage IllegalArguments))"
  by (simp add: post_auth_login_def)

text \<open>
  Claim C3. The claim has every login that fails on an unknown email and every login
  that fails on the password answered alike. Two logins without a password against the
  collection that holds alice: with an email no user has the answer is 400
  \<^verbatim>\<open>Invalid credentials\<close>; with alice's email \<^verbatim>\<open>bcrypt.compare\<close> throws on the
  undefined password and the answer is 400 with the exception's message. The two
  answers differ, so the caller learns that alice's email is registered.
\<close>

theorem login_without_password_reveals_known_email:
  "post_auth_login example_library example_env
     (empty_body\<lparr>b_email := Some ''nobody@example.com''\<rparr>) [alice]
     = json_res 400 (ErrorJson (Literal ''Invalid credentials''))
   \<and> post_auth_login example_library example_env
       (empty_body\<lparr>b_email := Some ''alice@example.com''\<rparr>) [alice]
     = json_res 400 (ErrorJson (ErrMessage IllegalArguments))
   \<and> post_auth_login example_library example_env
       (empty_body\<lparr>b_email := Some ''nobody@example.com''\<rparr>) [alice]
     \<noteq> post_auth_login example_library example_env
         (empty_body\<lparr>b_email := Some ''alice@example.com''\<rparr>) [alice]"
  by (simp add: post_auth_login_def findOne_email_def empty_body_def alice_def json_res_def)

text \<open>
  Claim C4. A registration whose email is the email of a stored user is answered with
  status 400 and the error \<^verbatim>\<open>Email already in use.\<close>, and the collection after the
  request is the collection before it.
\<close>

theorem register_duplicate_email:
  assumes "b_email b = Some em" and "u \<in> set db" and "email u = em"
  shows "post_auth_register lib e b db
         = (json_res 400 (ErrorJson (Literal ''Email already in use.'')), db)"
proof -
  have "find (\<lambda>v. email v = em) db \<noteq> None"
    using assms(2,3) by (auto simp add: find_None_iff)
  then show ?thesis
    using assms(1) by (auto simp add: post_auth_register_def findOne_email_def)
qed

theorem register_duplicate_email_witness:
  "b_email (mallory_body\<lparr>b_email := Some ''alice@example.com''\<rparr>) = Some ''alice@example.com''
   \<and> alice \<in> set [alice] \<and> email alice = ''alice@example.com''
   \<and> post_auth_register example_library example_env
        (mallory_body\<lparr>b_email := Some ''alice@example.com''\<rparr>) [alice]
      = (json_res 400 (ErrorJson (Literal ''Email already in use.'')), [alice])"
proof -
  let ?b = "mallory_body\<lparr>b_email := Some ''alice@example.com''\<rparr>"
  have h1: "b_email ?b = Some ''alice@example.com''" by simp
  have h2: "alice \<in> set [alice]" by simp
  have h3: "email alice = ''alice@example.com''" by (simp add: alice_def)
  from register_duplicate_email [OF h1 h2 h3, of example_library example_env]
  show ?thesis using h3 by simp
qed

text \<open>
  Claim C10. Registration needs no token and stores the role the body names. A body
  with a role of the schema's enum, a username, an email no stored user has and a
  password gives a stored user with exactly that role; with the role \<^verbatim>\<open>admin\<close> the
  new account's principal passes the admin-only check of \<^verbatim>\<open>GET /users\<close>.
\<close>

theorem register_stores_supplied_role:
  assumes role: "b_role b = Some r" "r \<in> set role_enum"
    and name: "required_string (b_username b)"
    and mail: "b_email b = Some em" "em \<noteq> []"
    and pw: "b_password b = Some pw" "bcrypt_hash lib pw (salt e) \<noteq> []"
    and fresh: "find (\<lambda>v. oid v = new_oid e \<or> email v = em) db = None"
  shows "\<exists>u. post_auth_register lib e b db = (json_res 201 (UserJson u), db @ [u])
           \<and> role u = r \<and> email u = em \<and> oid u = new_oid e
           \<and> res_status (get_users \<lparr>p_id = oid u, p_role = role u\<rparr> (db @ [u]))
               = (if r = ''admin'' then 200 else 403)"
proof -
  have nf: "find (\<lambda>u. email u = em) db = None"
    using fresh by (auto simp add: find_None_iff)
  let ?d = "\<lparr>b_username = b_username b, b_email = b_email b,
             b_password = Some (bcrypt_hash lib pw (salt e)), b_balance = None,
             b_wallet = None, b_seed = None,
             b_transaction_history = None, b_role = b_role b\<rparr>"
  have valid: "validate_User ?d"
    using role name mail pw
    by (simp add: validate_User_def required_string_def enum_ok_def or_default_def)
  have "save e ?d db = Inr (new_User e ?d, db @ [new_User e ?d])"
    using valid fresh mail by (simp add: save_def Let_def new_User_def or_default_def)
  then have "post_auth_register lib e b db
        = (json_res 201 (UserJson (new_User e ?d)), db @ [new_User e ?d])"
    using nf mail pw by (simp add: post_auth_register_def findOne_email_def Let_def)
  then show ?thesis
    using role mail by (simp add: new_User_def or_default_def get_users_def json_res_def)
qed

theorem register_stores_supplied_role_witness:
  "(\<exists>u. post_auth_register example_library example_env mallory_body [alice]
         = (json_res 201 (UserJson u), [alice] @ [u])
        \<and> role u = ''admin''
        \<and> res_status (get_users \<lparr>p_id = oid u, p_role = role u\<rparr> ([alice] @ [u])) = 200)
   \<and> b_role mallory_body = Some ''admin''"
proof -
  have h1: "b_role mallory_body = Some ''admin''" by (simp add: mallory_body_def)
  have h1': "''admin'' \<in> set role_enum" by (simp add: role_enum_def)
  have h2: "required_string (b_username mallory_body)"
    by (simp add: mallory_body_def required_string_def)
  have h3: "b_email mallory_body = Some ''mallory@example.com''" by (simp add: mallory_body_def)
  have h4: "''mallory@example.com'' \<noteq> []" by simp
  have h5: "b_password mallory_body = Some ''hunter2''" by (simp add: mallory_body_def)
  have h6: "bcrypt_hash example_library ''hunter2'' (salt example_env) \<noteq> []"
    by (simp add: example_library_def example_env_def)
  have h7: "find (\<lambda>v. oid v = new_oid example_env \<or> email v = ''mallory@example.com'') [alice]
            = None"
    by (simp add: example_env_def alice_def)
  from register_stores_supplied_role [OF h1 h1' h2 h3 h4 h5 h6 h7]
  show ?thesis using h1 by auto
qed

section \<open>Tokens issued by login and read by the middleware\<close>

text \<open>
  Claim C6. A token signed for an id and a role with the lifetime \<^verbatim>\<open>"1d"\<close> that
  login passes, and verified under the same secret, gives back exactly that id and
  role at every clock reading before its expiry, 86400 seconds after it was issued;
  from the expiry on, verification fails and the middleware answers 401
  \<^verbatim>\<open>Invalid token\<close>.
\<close>

theorem token_round_trip_until_expiry:
  assumes same_secret: "jwt_secret e' = jwt_secret e"
  shows "authMiddleware lib e'
           (Bearer (Some (jwt_sign lib (i, r) (jwt_secret e) one_day (now e))))
         = (if now e' < now e + 86400
            then Inr \<lparr>p_id = i, p_role = r\<rparr>
            else Inl (json_res 401 (ErrorJson (Literal ''Invalid token''))))
        \<and> jwt_verify lib (jwt_sign lib (i, r) (jwt_secret e) one_day (now e))
             (jwt_secret e') (now e')
         = (if now e' < now e + 86400 then Inr (i, r) else Inl TokenExpiredError)"
  using assms
  by (simp add: authMiddleware_def jwt_verify_def jwt_sign_def jwt_payload_def one_day_def)

theorem token_round_trip_until_expiry_witness:
  "jwt_secret (example_env\<lparr>now := 1000 + 86399\<rparr>) = jwt_secret example_env
   \<and> jwt_secret (example_env\<lparr>now := 1000 + 86400\<rparr>) = jwt_secret example_env
   \<and> authMiddleware example_library (example_env\<lparr>now := 1000 + 86399\<rparr>)
        (Bearer (Some (jwt_sign example_library (oid alice, role alice) (jwt_secret example_env)
           one_day (now example_env))))
      = Inr \<lparr>p_id = oid alice, p_role = role alice\<rparr>
   \<and> authMiddleware example_library (example_env\<lparr>now := 1000 + 86400\<rparr>)
        (Bearer (Some (jwt_sign example_library (oid alice, role alice) (jwt_secret example_env)
           one_day (now example_env))))
      = Inl (json_res 401 (ErrorJson (Literal ''Invalid token'')))"
proof -
  have h1: "jwt_secret (example_env\<lparr>now := 1000 + 86399\<rparr>) = jwt_secret example_env"
    by (simp add: jwt_secret_def)
  have h2: "jwt_secret (example_env\<lparr>now := 1000 + 86400\<rparr>) = jwt_secret example_env"
    by (simp add: jwt_secret_def)
  from token_round_trip_until_expiry [OF h1, of example_library "oid alice" "role alice"]
       token_round_trip_until_expiry [OF h2, of example_library "oid alice" "role alice"]
  show ?thesis using h1 h2 by (simp add: example_env_def)
qed

text \<open>
  The token a successful login returns is such a token, for the id and the role of the
  user that logged in.
\<close>

lemma login_token_names_the_user:
  assumes same_secret: "jwt_secret e' = jwt_secret e"
    and login: "post_auth_login lib e b db = json_res 200 (LoginJson m token p)"
  shows "\<exists>u. findOne_email (b_email b) db = Some u
          \<and> authMiddleware lib e' (Bearer (Some token))
             = (if now e' < now e + 86400
                then Inr \<lparr>p_id = oid u, p_role = role u\<rparr>
                else Inl (json_res 401 (ErrorJson (Literal ''Invalid token''))))"
  using assms
  by (auto simp add: post_auth_login_def json_res_def Let_def authMiddleware_def
      jwt_verify_def jwt_sign_def jwt_payload_def one_day_def
      split: option.splits if_splits)

section \<open>Creating a user as admin\<close>

text \<open>
  Claim C9. The handler of \<^verbatim>\<open>POST /users\<close> leaves \<^verbatim>\<open>hashedPassword\<close> at
  \<^verbatim>\<open>""\<close> when the body has no password (or an empty one) and saves the document
  with it; the schema's \<^verbatim>\<open>required: true\<close> on \<^verbatim>\<open>password\<close> rejects the empty
  string, so the request of an admin ends in status 400 with the validation error and
  nothing is stored.
\<close>

theorem admin_create_without_password_rejected:
  assumes admin: "p_role pr = ''admin''"
    and nopw: "b_password b = None \<or> b_password b = Some []"
  shows "post_users lib e pr b db = (json_res 400 (ErrorJson (ErrMessage ValidationError)), db)"
  using assms
  by (auto simp add: post_users_def Let_def save_def validate_User_def required_string_def)

theorem admin_create_without_password_rejected_witness:
  "p_role admin_principal = ''admin''
   \<and> b_password (mallory_body\<lparr>b_password := None\<rparr>) = None
   \<and> post_users example_library example_env admin_principal
        (mallory_body\<lparr>b_password := None\<rparr>) []
      = (json_res 400 (ErrorJson (ErrMessage ValidationError)), [])"
proof -
  have h1: "p_role admin_principal = ''admin''" by (simp add: admin_principal_def)
  have h2: "b_password (mallory_body\<lparr>b_password := None\<rparr>) = None
            \<or> b_password (mallory_body\<lparr>b_password := None\<rparr>) = Some []"
    by simp
  from admin_create_without_password_rejected [OF h1 h2, of example_library example_env "[]"]
  show ?thesis using h1 by simp
qed

text \<open>With a password that is not empty, what is stored is its hash.\<close>

lemma admin_create_with_password_hashes:
  assumes admin: "p_role pr = ''admin''"
    and pw: "b_password b = Some pw" "pw \<noteq> []"
    and ok: "post_users lib e pr b db = (r, db')" "res_status r = 201"
  shows "\<exists>u. r = json_res 201 (UserJson u) \<and> db' = db @ [u]
           \<and> password u = bcrypt_hash lib pw (salt e)"
  using assms
  by (auto simp add: post_users_def Let_def save_def json_res_def new_User_def or_default_def
      split: if_splits option.splits)

section \<open>Updates of one stored document\<close>

lemma by_oid_Some_oid: "by_oid k db = Some u \<Longrightarrow> oid u = k"
  by (auto simp add: by_oid_def find_Some_iff)

lemma by_oid_Some_mem: "by_oid k db = Some u \<Longrightarrow> u \<in> set db"
  by (auto simp add: by_oid_def find_Some_iff)

lemma by_oid_append: "by_oid k db = Some u \<Longrightarrow> by_oid k (db @ ys) = Some u"
  by (induction db) (auto simp add: by_oid_def)

lemma by_oid_replace:
  assumes "oid u' = k'"
  shows "by_oid k (map (\<lambda>v. if oid v = k' then u' else v) db)
         = map_option (\<lambda>v. if oid v = k' then u' else v) (by_oid k db)"
  using assms by (induction db) (auto simp add: by_oid_def)

lemma oid_apply_update: "oid (apply_update lib e upd u) = oid u"
  by (cases upd) (simp_all add: apply_update_def)


lemma findByIdAndUpdate_Inr:
  assumes "findByIdAndUpdate lib e i upd db = Inr (r, db')"
  shows "(r = None \<and> db' = db)
         \<or> (\<exists>k u. castObjectId i = Some k \<and> by_oid k db = Some u
               \<and> r = Some (apply_update lib e upd u)
               \<and> db' = map (\<lambda>v. if oid v = k then apply_update lib e upd u else v) db)"
  using assms
  by (auto simp add: findByIdAndUpdate_def by_oid_def Let_def split: option.splits if_splits)

lemma by_oid_after_update:
  assumes "by_oid k db = Some u"
  shows "by_oid k (map (\<lambda>v. if oid v = k then apply_update lib e upd u else v) db)
         = Some (apply_update lib e upd u)"
proof -
  have "oid (apply_update lib e upd u) = k"
    using assms by (simp add: oid_apply_update by_oid_Some_oid)
  then show ?thesis
    using assms by (simp add: by_oid_replace by_oid_Some_oid)
qed

lemma negative_amount_invalid: "tx_amount t = Some a \<Longrightarrow> a < 0 \<Longrightarrow> \<not> validate_transaction t"
  by (simp add: validate_transaction_def)




text \<open>
  With \<^verbatim>\<open>$each\<close> and \<^verbatim>\<open>$position: 0\<close> the pushed entry goes in front of the
  stored ones.
\<close>

lemma append_with_position_prepends_example:
  "map transaction_history
     (snd (patch_users_id_transactions example_library example_env alice_principal (oid alice)
        (pending_transaction
           \<lparr>modifiers := Some \<lparr>m_each = [transaction_body.truncate pending_transaction],
                                 m_position = Some 0, m_sort = None, m_slice = None\<rparr>\<rparr>)
        [alice]))
   = [[\<lparr>date = ''2025-02-02'', amount = 0, recipient = ''bob'', status = ''Pending''\<rparr>,
       \<lparr>date = ''2025-01-01'', amount = 5, recipient = ''bob'', status = ''Success''\<rparr>]]"
  by (simp add: pending_transaction_def alice_def alice_principal_def
      patch_users_id_transactions_def findByIdAndUpdate_def castObjectId_def hex_lower_def
      or_default_def validate_update_def validate_transaction_def required_string_def
      enum_ok_def status_enum_def apply_update_def push_each_def push_index_def
      push_slice_def new_transaction_def transaction_body.truncate_def Let_def)

section \<open>The update of a user\<close>




lemma put_users_id_snd:
  "snd (put_users_id lib e pr i b db) = db
   \<or> (\<exists>k u. castObjectId i = Some k \<and> by_oid k db = Some u
         \<and> snd (put_users_id lib e pr i b db)
            = map (\<lambda>v. if oid v = k then apply_update lib e (Set (updateData lib e b)) u else v) db)"
proof (cases "findByIdAndUpdate lib e i (Set (updateData lib e b)) db")
  case (Inl err)
  then show ?thesis by (simp add: put_users_id_def)
next
  case (Inr p)
  obtain r db' where p: "p = (r, db')" by (cases p)
  from findByIdAndUpdate_Inr [OF Inr [unfolded p]] show ?thesis
    using Inr p by (auto simp add: put_users_id_def)
qed





section \<open>The stored histories over a run of the server\<close>

lemma save_snd:
  "save e b db = Inr (u, db') \<Longrightarrow> db' = db @ [u]"
  by (auto simp add: save_def Let_def split: if_splits option.splits)

lemma post_auth_register_snd:
  "snd (post_auth_register lib e b db) = db
   \<or> (\<exists>u. snd (post_auth_register lib e b db) = db @ [u])"
  by (auto simp add: post_auth_register_def Let_def dest: save_snd
      split: option.splits sum.splits prod.splits)

lemma post_users_snd:
  "snd (post_users lib e pr b db) = db \<or> (\<exists>u. snd (post_users lib e pr b db) = db @ [u])"
  by (auto simp add: post_users_def Let_def dest: save_snd
      split: option.splits sum.splits prod.splits)

lemma patch_users_id_transactions_snd:
  "snd (patch_users_id_transactions lib e pr i t db) = db
   \<or> (\<exists>k u. castObjectId i = Some k \<and> by_oid k db = Some u
         \<and> snd (patch_users_id_transactions lib e pr i t db)
            = map (\<lambda>v. if oid v = k then apply_update lib e (Push t) u else v) db)"
proof (cases "findByIdAndUpdate lib e i (Push t) db")
  case (Inl err)
  then show ?thesis by (simp add: patch_users_id_transactions_def)
next
  case (Inr p)
  obtain r db' where p: "p = (r, db')" by (cases p)
  from findByIdAndUpdate_Inr [OF Inr [unfolded p]] show ?thesis
    using Inr p by (auto simp add: patch_users_id_transactions_def)
qed

lemma prefix_apply_update:
  "appends_only upd \<Longrightarrow> prefix (transaction_history u) (transaction_history (apply_update lib e upd u))"
  by (cases upd) (simp_all add: appends_only_def apply_update_def)

lemma history_after_replace:
  assumes found: "by_oid k db = Some u" and other: "by_oid k' db = Some w"
    and app: "k' = k \<Longrightarrow> appends_only upd"
  shows "\<exists>u'. by_oid k (map (\<lambda>v. if oid v = k' then apply_update lib e upd w else v) db) = Some u'
              \<and> prefix (transaction_history u) (transaction_history u')"
proof -
  have "oid (apply_update lib e upd w) = k'"
    using other by (simp add: oid_apply_update by_oid_Some_oid)
  then have eq: "by_oid k (map (\<lambda>v. if oid v = k' then apply_update lib e upd w else v) db)
        = Some (if oid u = k' then apply_update lib e upd w else u)"
    using found by (simp add: by_oid_replace)
  show ?thesis
  proof (cases "oid u = k'")
    case True
    then have same: "k' = k" using found by (auto dest: by_oid_Some_oid)
    then have "w = u" using found other by simp
    then show ?thesis using eq True app [OF same] by (simp add: prefix_apply_update)
  next
    case False
    then show ?thesis using eq by simp
  qed
qed

lemma by_oid_remove1: "oid w \<noteq> k \<Longrightarrow> by_oid k (remove1 w db) = by_oid k db"
  by (induction db) (auto simp add: by_oid_def)

lemma delete_users_id_snd:
  "snd (delete_users_id pr i db) = db
   \<or> (\<exists>k w. castObjectId i = Some k \<and> by_oid k db = Some w
         \<and> snd (delete_users_id pr i db) = remove1 w db)"
  by (auto simp add: delete_users_id_def findByIdAndDelete_def by_oid_def
      split: option.splits)

lemma protected_snd_cases:
  assumes "Q db" and "\<And>pr. Q (snd (handler pr))"
  shows "Q (snd (protected lib e h handler db))"
  using assms by (simp add: protected_def split: sum.splits)

lemma app_step_history:
  assumes safe: "\<not> rewrites_history k req" and found: "by_oid k db = Some u"
  shows "\<exists>u'. by_oid k (snd (app lib e req db)) = Some u'
              \<and> prefix (transaction_history u) (transaction_history u')"
proof -
  let ?Q = "\<lambda>db'. \<exists>u'. by_oid k db' = Some u'
              \<and> prefix (transaction_history u) (transaction_history u')"
  have same: "?Q db"
    using found by simp
  have grown: "?Q (db @ [x])" for x
    using found by (simp add: by_oid_append)
  have replaced: "?Q (map (\<lambda>v. if oid v = k' then apply_update lib e upd w else v) db)"
    if "by_oid k' db = Some w" and "k' = k \<Longrightarrow> appends_only upd" for k' w upd
    using history_after_replace [OF found that] .
  show ?thesis
  proof (cases req)
    case (PostAuthRegister b)
    have "?Q (snd (post_auth_register lib e b db))"
      using post_auth_register_snd [of lib e b db] same grown by (elim disjE exE) simp_all
    then show ?thesis using PostAuthRegister by (simp add: app_def)
  next
    case (PostAuthLogin b)
    then show ?thesis using same by (simp add: app_def)
  next
    case (PostUsers h b)
    have "?Q (snd (post_users lib e pr b db))" for pr
      using post_users_snd [of lib e pr b db] same grown by (elim disjE exE) simp_all
    then have "?Q (snd (protected lib e h (\<lambda>req_user. post_users lib e req_user b db) db))"
      using same by (intro protected_snd_cases [where Q = ?Q])
    then show ?thesis using PostUsers by (simp add: app_def)
  next
    case (GetUsers h)
    have "?Q (snd (protected lib e h (\<lambda>req_user. (get_users req_user db, db)) db))"
      using same by (intro protected_snd_cases [where Q = ?Q]) simp_all
    then show ?thesis using GetUsers by (simp add: app_def)
  next
    case (GetUsersId h i)
    have "?Q (snd (protected lib e h (\<lambda>req_user. (get_users_id req_user i db, db)) db))"
      using same by (intro protected_snd_cases [where Q = ?Q]) simp_all
    then show ?thesis using GetUsersId by (simp add: app_def)
  next
    case (PutUsersId h i b)
    then have none: "appends_only (Set (updateData lib e b))" if "castObjectId i = Some k"
      using safe that by (simp add: rewrites_history_def appends_only_def updateData_def)
    have "?Q (snd (put_users_id lib e pr i b db))" for pr
      using put_users_id_snd [of lib e pr i b db]
    proof (elim disjE exE conjE)
      assume "snd (put_users_id lib e pr i b db) = db"
      then show ?thesis using same by simp
    next
      fix k' w
      assume cast: "castObjectId i = Some k'" and w: "by_oid k' db = Some w"
        and eq: "snd (put_users_id lib e pr i b db)
           = map (\<lambda>v. if oid v = k' then apply_update lib e (Set (updateData lib e b)) w else v) db"
      have "k' = k \<Longrightarrow> appends_only (Set (updateData lib e b))"
        using cast none by simp
      then show ?thesis using replaced [OF w] eq by simp
    qed
    then have "?Q (snd (protected lib e h (\<lambda>req_user. put_users_id lib e req_user i b db) db))"
      using same by (intro protected_snd_cases [where Q = ?Q])
    then show ?thesis using PutUsersId by (simp add: app_def)
  next
    case (DeleteUsersId h i)
    then have other: "castObjectId i \<noteq> Some k"
      using safe by (simp add: rewrites_history_def)
    have "?Q (snd (delete_users_id pr i db))" for pr
      using delete_users_id_snd [of pr i db]
    proof (elim disjE exE conjE)
      assume "snd (delete_users_id pr i db) = db"
      then show ?thesis using same by simp
    next
      fix k' w
      assume cast: "castObjectId i = Some k'" and w: "by_oid k' db = Some w"
        and eq: "snd (delete_users_id pr i db) = remove1 w db"
      have "oid w \<noteq> k"
        using cast w other by (auto dest: by_oid_Some_oid)
      then show ?thesis using eq same by (simp add: by_oid_remove1)
    qed
    then have "?Q (snd (protected lib e h (\<lambda>req_user. delete_users_id req_user i db) db))"
      using same by (intro protected_snd_cases [where Q = ?Q])
    then show ?thesis using DeleteUsersId by (simp add: app_def)
  next
    case (PatchUsersIdTransactions h i t)
    then have push: "appends_only (Push t)" if "castObjectId i = Some k"
      using safe that by (simp add: rewrites_history_def appends_only_def)
    have "?Q (snd (patch_users_id_transactions lib e pr i t db))" for pr
      using patch_users_id_transactions_snd [of lib e pr i t db]
    proof (elim disjE exE conjE)
      assume "snd (patch_users_id_transactions lib e pr i t db) = db"
      then show ?thesis using same by simp
    next
      fix k' w
      assume cast: "castObjectId i = Some k'" and w: "by_oid k' db = Some w"
        and eq: "snd (patch_users_id_transactions lib e pr i t db)
           = map (\<lambda>v. if oid v = k' then apply_update lib e (Push t) w else v) db"
      have "k' = k \<Longrightarrow> appends_only (Push t)"
        using cast push by simp
      then show ?thesis using replaced [OF w] eq by simp
    qed
    then have "?Q (snd (protected lib e h
                      (\<lambda>req_user. patch_users_id_transactions lib e req_user i t db) db))"
      using same by (intro protected_snd_cases [where Q = ?Q])
    then show ?thesis using PatchUsersIdTransactions by (simp add: app_def)
  qed
qed

text \<open>
  Claim C2, as amended. Take a user stored at the start of a run of requests in which
  no request is a delete of that user, an update of that user whose body has the
  field \<^verbatim>\<open>transaction_history\<close>, or a push to that user's history whose body
  has the key \<^verbatim>\<open>$each\<close>. The user is still stored at the end, and the
  history it had at the start is a prefix of its history at the end: every entry is
  still there, unmodified and in its position, and whatever is new comes after.
\<close>

theorem history_append_only_without_update_and_delete:
  assumes safe: "list_all (\<lambda>step. \<not> rewrites_history k (snd step)) steps"
    and found: "by_oid k db = Some u"
  shows "\<exists>u'. by_oid k (run lib steps db) = Some u'
              \<and> prefix (transaction_history u) (transaction_history u')"
  using assms
proof (induction steps arbitrary: db u)
  case Nil
  then show ?case by simp
next
  case (Cons step steps)
  from Cons.prems have s1: "\<not> rewrites_history k (snd step)"
    and rest: "list_all (\<lambda>step. \<not> rewrites_history k (snd step)) steps"
    by simp_all
  from app_step_history [OF s1 Cons.prems(2), of lib "fst step"]
  obtain u1 where u1: "by_oid k (snd (app lib (fst step) (snd step) db)) = Some u1"
    and p1: "prefix (transaction_history u) (transaction_history u1)"
    by blast
  from Cons.IH [OF rest u1]
  obtain u' where "by_oid k (run lib steps (snd (app lib (fst step) (snd step) db))) = Some u'"
    and "prefix (transaction_history u1) (transaction_history u')"
    by blast
  then show ?case using p1 by (auto intro: prefix_order.trans)
qed

theorem history_append_only_without_update_and_delete_witness:
  "list_all (\<lambda>step. \<not> rewrites_history (oid alice) (snd step))
     [(example_env, PatchUsersIdTransactions
         (Bearer (Some (jwt_sign example_library (oid alice, role alice)
                          (jwt_secret example_env) one_day 500)))
         (oid alice)
         pending_transaction),
      (example_env, PostAuthRegister mallory_body),
      (example_env, PutUsersId
         (Bearer (Some (jwt_sign example_library (oid alice, role alice)
                          (jwt_secret example_env) one_day 500)))
         (oid alice) (empty_body\<lparr>b_wallet := Some ''rXYZ''\<rparr>))]
   \<and> by_oid (oid alice) [alice] = Some alice
   \<and> (\<exists>u'. by_oid (oid alice)
              (run example_library
                 [(example_env, PatchUsersIdTransactions
                     (Bearer (Some (jwt_sign example_library (oid alice, role alice)
                                      (jwt_secret example_env) one_day 500)))
                     (oid alice)
                     pending_transaction),
                  (example_env, PostAuthRegister mallory_body),
                  (example_env, PutUsersId
                     (Bearer (Some (jwt_sign example_library (oid alice, role alice)
                                      (jwt_secret example_env) one_day 500)))
                     (oid alice) (empty_body\<lparr>b_wallet := Some ''rXYZ''\<rparr>))]
                 [alice]) = Some u'
         \<and> prefix (transaction_history alice) (transaction_history u'))"
proof -
  let ?steps = "[(example_env, PatchUsersIdTransactions
         (Bearer (Some (jwt_sign example_library (oid alice, role alice)
                          (jwt_secret example_env) one_day 500)))
         (oid alice)
         pending_transaction),
      (example_env, PostAuthRegister mallory_body),
      (example_env, PutUsersId
         (Bearer (Some (jwt_sign example_library (oid alice, role alice)
                          (jwt_secret example_env) one_day 500)))
         (oid alice) (empty_body\<lparr>b_wallet := Some ''rXYZ''\<rparr>))]"
  have h1: "list_all (\<lambda>step. \<not> rewrites_history (oid alice) (snd step)) ?steps"
    by (simp add: rewrites_history_def empty_body_def pending_transaction_def)
  have h2: "by_oid (oid alice) [alice] = Some alice"
    by (simp add: by_oid_def)
  from history_append_only_without_update_and_delete [OF h1 h2, of example_library]
  show ?thesis using h1 h2 by blast
qed

text \<open>
  The claim as the spec words it covers every exposed operation. The update route
  copies \<^verbatim>\<open>transaction_history\<close> from the body into the update, so the owner of
  an account (or an admin) replaces the stored history with one request; here, with the
  empty list.
\<close>

theorem update_replaces_history_counterexample:
  "map transaction_history [alice]
     = [[\<lparr>date = ''2025-01-01'', amount = 5, recipient = ''bob'', status = ''Success''\<rparr>]]
   \<and> map transaction_history
       (run example_library
          [(example_env, PutUsersId
              (Bearer (Some (jwt_sign example_library (oid alice, role alice)
                               (jwt_secret example_env) one_day 500)))
              (oid alice)
              (empty_body\<lparr>b_transaction_history := Some []\<rparr>))]
          [alice])
     = [[]]"
  by (simp add: alice_def app_def protected_def authMiddleware_def jwt_verify_def jwt_sign_def
      jwt_payload_def jwt_secret_def one_day_def example_env_def example_library_def
      put_users_id_def findByIdAndUpdate_def castObjectId_def hex_lower_def or_default_def
      validate_update_def updateData_def empty_body_def enum_ok_def apply_update_def Let_def)

text \<open>The append route, on the same account.\<close>

lemma run_patch_appends_example:
  "map transaction_history
       (run example_library
          [(example_env, PatchUsersIdTransactions
              (Bearer (Some (jwt_sign example_library (oid alice, role alice)
                               (jwt_secret example_env) one_day 500)))
              (oid alice)
              pending_transaction)]
          [alice])
     = [[\<lparr>date = ''2025-01-01'', amount = 5, recipient = ''bob'', status = ''Success''\<rparr>,
         \<lparr>date = ''2025-02-02'', amount = 0, recipient = ''bob'', status = ''Pending''\<rparr>]]"
  by (simp add: alice_def app_def protected_def authMiddleware_def jwt_verify_def jwt_sign_def
      jwt_payload_def jwt_secret_def one_day_def example_env_def example_library_def
      patch_users_id_transactions_def findByIdAndUpdate_def castObjectId_def hex_lower_def
      or_default_def validate_update_def validate_transaction_def required_string_def
      enum_ok_def status_enum_def apply_update_def new_transaction_def Let_def
      pending_transaction_def)

section \<open>What the responses show of the stored password\<close>

lemma login_no_password_field:
  "password_fields (res_json (post_auth_login lib e b db)) = []"
  by (simp add: post_auth_login_def password_fields_def json_res_def Let_def
      split: option.splits)

text \<open>
  Nor does the login response depend on the stored hash, beyond the outcome of the
  comparison: the same login against a collection that differs in that user's hash
  only, with the same outcome, gets the same response.
\<close>

lemma login_response_independent_of_hash:
  assumes "findOne_email (b_email b) db = Some u"
    and "findOne_email (b_email b) db' = Some (u\<lparr>password := h\<rparr>)"
    and "b_password b = Some pw"
    and "bcrypt_compare lib pw h = bcrypt_compare lib pw (password u)"
  shows "post_auth_login lib e b db' = post_auth_login lib e b db"
  using assms by (simp add: post_auth_login_def Let_def)

lemma save_returns_stored:
  assumes "save e b db = Inr (u, db')"
  shows "u \<in> set db'"
  using save_snd [OF assms] by simp

lemma register_returns_stored:
  assumes "post_auth_register lib e b db = (r, db')" and "res_status r = 201"
  shows "\<exists>u. r = json_res 201 (UserJson u) \<and> u \<in> set db'"
  using assms
  by (auto simp add: post_auth_register_def Let_def json_res_def dest: save_returns_stored
      split: option.splits sum.splits prod.splits)

lemma post_users_returns_stored:
  assumes "post_users lib e pr b db = (r, db')" and "res_status r = 201"
  shows "\<exists>u. r = json_res 201 (UserJson u) \<and> u \<in> set db'"
  using assms
  by (auto simp add: post_users_def Let_def json_res_def dest: save_returns_stored
      split: option.splits sum.splits prod.splits if_splits)

lemma get_users_returns_stored:
  assumes "res_status (get_users pr db) = 200"
  shows "get_users pr db = json_res 200 (UsersJson db)"
  using assms by (auto simp add: get_users_def json_res_def split: if_splits)

lemma get_users_id_returns_stored:
  assumes "res_status (get_users_id pr i db) = 200"
  shows "\<exists>u. get_users_id pr i db = json_res 200 (UserJson u) \<and> u \<in> set db"
  using assms
  by (auto simp add: get_users_id_def findById_def json_res_def by_oid_def [symmetric]
      dest: by_oid_Some_mem split: if_splits option.splits sum.splits)

lemma findByIdAndUpdate_returns_stored:
  assumes "findByIdAndUpdate lib e i upd db = Inr (Some u', db')"
  shows "u' \<in> set db'"
proof -
  from findByIdAndUpdate_Inr [OF assms]
  obtain k u where "by_oid k db = Some u" and u': "u' = apply_update lib e upd u"
    and db': "db' = map (\<lambda>v. if oid v = k then apply_update lib e upd u else v) db"
    by auto
  then have "by_oid k db' = Some u'"
    using by_oid_after_update by simp
  then show ?thesis by (rule by_oid_Some_mem)
qed

lemma put_users_id_returns_stored:
  assumes "put_users_id lib e pr i b db = (r, db')" and "res_status r = 200"
  shows "\<exists>u. r = json_res 200 (UserJson u) \<and> u \<in> set db'"
  using assms
  by (auto simp add: put_users_id_def json_res_def dest: findByIdAndUpdate_returns_stored
      split: if_splits option.splits sum.splits prod.splits)

lemma patch_returns_stored:
  assumes "patch_users_id_transactions lib e pr i t db = (r, db')" and "res_status r = 200"
  shows "\<exists>u. r = json_res 200 (UserJson u) \<and> u \<in> set db'"
  using assms
  by (auto simp add: patch_users_id_transactions_def json_res_def
      dest: findByIdAndUpdate_returns_stored
      split: if_splits option.splits sum.splits prod.splits)

lemma password_fields_user: "password_fields (res_json (json_res c (UserJson u))) = [password u]"
  by (simp add: password_fields_def json_res_def)

text \<open>
  Claim C5, as amended. The body of a login response has no password field. A
  successful register, create-as-admin, get, update or append answers with a stored
  user document as it is, and a successful list with all of them: the response body
  carries the \<^verbatim>\<open>password\<close> field of each, which holds the stored hash.
\<close>

theorem responses_carry_password_except_login:
  "password_fields (res_json (post_auth_login lib e b db)) = []
   \<and> (\<forall>r db'. post_auth_register lib e b db = (r, db') \<and> res_status r = 201 \<longrightarrow>
         (\<exists>u. u \<in> set db' \<and> res_json r = UserJson u \<and> password_fields (res_json r) = [password u]))
   \<and> (\<forall>r db'. post_users lib e pr b db = (r, db') \<and> res_status r = 201 \<longrightarrow>
         (\<exists>u. u \<in> set db' \<and> res_json r = UserJson u \<and> password_fields (res_json r) = [password u]))
   \<and> (res_status (get_users pr db) = 200 \<longrightarrow>
         res_json (get_users pr db) = UsersJson db
         \<and> password_fields (res_json (get_users pr db)) = map password db)
   \<and> (res_status (get_users_id pr i db) = 200 \<longrightarrow>
         (\<exists>u. u \<in> set db \<and> res_json (get_users_id pr i db) = UserJson u
              \<and> password_fields (res_json (get_users_id pr i db)) = [password u]))
   \<and> (\<forall>r db'. put_users_id lib e pr i b db = (r, db') \<and> res_status r = 200 \<longrightarrow>
         (\<exists>u. u \<in> set db' \<and> res_json r = UserJson u \<and> password_fields (res_json r) = [password u]))
   \<and> (\<forall>r db'. patch_users_id_transactions lib e pr i t db = (r, db') \<and> res_status r = 200 \<longrightarrow>
         (\<exists>u. u \<in> set db' \<and> res_json r = UserJson u \<and> password_fields (res_json r) = [password u]))"
proof (intro conjI allI impI; (elim conjE)?)
  show "password_fields (res_json (post_auth_login lib e b db)) = []"
    by (rule login_no_password_field)
next
  fix r db' assume "post_auth_register lib e b db = (r, db')" "res_status r = 201"
  from register_returns_stored [OF this]
  show "\<exists>u. u \<in> set db' \<and> res_json r = UserJson u \<and> password_fields (res_json r) = [password u]"
    by (auto simp add: password_fields_def json_res_def)
next
  fix r db' assume "post_users lib e pr b db = (r, db')" "res_status r = 201"
  from post_users_returns_stored [OF this]
  show "\<exists>u. u \<in> set db' \<and> res_json r = UserJson u \<and> password_fields (res_json r) = [password u]"
    by (auto simp add: password_fields_def json_res_def)
next
  assume "res_status (get_users pr db) = 200"
  from get_users_returns_stored [OF this]
  show "res_json (get_users pr db) = UsersJson db"
    by (simp add: json_res_def)
next
  assume "res_status (get_users pr db) = 200"
  from get_users_returns_stored [OF this]
  show "password_fields (res_json (get_users pr db)) = map password db"
    by (simp add: password_fields_def json_res_def)
next
  assume "res_status (get_users_id pr i db) = 200"
  from get_users_id_returns_stored [OF this]
  show "\<exists>u. u \<in> set db \<and> res_json (get_users_id pr i db) = UserJson u
              \<and> password_fields (res_json (get_users_id pr i db)) = [password u]"
    by (auto simp add: password_fields_def json_res_def)
next
  fix r db' assume "put_users_id lib e pr i b db = (r, db')" "res_status r = 200"
  from put_users_id_returns_stored [OF this]
  show "\<exists>u. u \<in> set db' \<and> res_json r = UserJson u \<and> password_fields (res_json r) = [password u]"
    by (auto simp add: password_fields_def json_res_def)
next
  fix r db' assume "patch_users_id_transactions lib e pr i t db = (r, db')" "res_status r = 200"
  from patch_returns_stored [OF this]
  show "\<exists>u. u \<in> set db' \<and> res_json r = UserJson u \<and> password_fields (res_json r) = [password u]"
    by (auto simp add: password_fields_def json_res_def)
qed

theorem responses_carry_password_except_login_witness:
  "res_status (get_users admin_principal [alice]) = 200
   \<and> password_fields (res_json (get_users admin_principal [alice])) = [''$2a$secret'']
   \<and> res_status (post_auth_login example_library example_env
        (empty_body\<lparr>b_email := Some ''alice@example.com'', b_password := Some ''secret''\<rparr>)
        [alice]) = 200
   \<and> password_fields (res_json (post_auth_login example_library example_env
        (empty_body\<lparr>b_email := Some ''alice@example.com'', b_password := Some ''secret''\<rparr>)
        [alice])) = []"
proof -
  have h1: "res_status (get_users admin_principal [alice]) = 200"
    by (simp add: get_users_def admin_principal_def json_res_def)
  have h2: "res_status (post_auth_login example_library example_env
        (empty_body\<lparr>b_email := Some ''alice@example.com'', b_password := Some ''secret''\<rparr>)
        [alice]) = 200"
    by (simp add: post_auth_login_def findOne_email_def empty_body_def alice_def
        example_library_def json_res_def Let_def)
  from responses_carry_password_except_login
         [of example_library example_env
             "empty_body\<lparr>b_email := Some ''alice@example.com'', b_password := Some ''secret''\<rparr>"
             "[alice]" admin_principal]
  show ?thesis using h1 h2 by (simp add: alice_def password_fields_def)
qed

text \<open>
  The claim as the spec words it has no success response contain the stored hash.
  Registration answers with \<^verbatim>\<open>savedUser\<close>, the saved document: the hash that was
  just stored is in the response.
\<close>

theorem register_response_carries_hash_counterexample:
  "res_status (fst (post_auth_register example_library example_env mallory_body [])) = 201
   \<and> password_fields
       (res_json (fst (post_auth_register example_library example_env mallory_body [])))
     = [''$2a$hunter2'']
   \<and> map password (snd (post_auth_register example_library example_env mallory_body []))
     = [''$2a$hunter2'']"
  by (simp add: post_auth_register_def findOne_email_def mallory_body_def empty_body_def
      example_library_def example_env_def save_def validate_User_def required_string_def
      enum_ok_def role_enum_def or_default_def new_User_def Let_def json_res_def
      password_fields_def)

end
